theory Spec2Isabelle
  imports Main "HOL-Library.Word"
begin

unbundle bit_operations_syntax

section \<open>The platform shim of LinuxHalSwiftIO (swift\_platform.c)\<close>

text \<open>
  The file holds six C functions that wrap services of the operating system:
  \<^verbatim>\<open>usleep\<close>, \<^verbatim>\<open>sysinfo\<close>, \<^verbatim>\<open>sysconf\<close>, \<^verbatim>\<open>getrandom\<close> and the cycle counter of the
  processor. It builds for x86-64 and for 64-bit ARM only (any other target stops at the
  \<^verbatim>\<open>#error\<close>), so the data model is LP64.
\<close>

subsection \<open>C integer types on LP64\<close>

text \<open>
  A C integer is the word of its width. Signed and unsigned types of one width share the
  word type: \<open>sint\<close> reads a word as the signed type does, \<open>uint\<close> as the unsigned type
  does, and a conversion between the two keeps the bits. Arithmetic wraps around; for the
  signed types that is what the multiplication instruction of both targets computes
  (ISO C leaves signed overflow undefined).
\<close>

type_synonym c_int = "32 word"    \<comment> \<open>\<^verbatim>\<open>int\<close>\<close>
type_synonym c_uint = "32 word"   \<comment> \<open>\<^verbatim>\<open>unsigned int\<close>, \<^verbatim>\<open>useconds_t\<close>\<close>
type_synonym c_long = "64 word"   \<comment> \<open>\<^verbatim>\<open>long\<close>, \<^verbatim>\<open>long long\<close>, \<^verbatim>\<open>ssize_t\<close>\<close>
type_synonym c_ulong = "64 word"  \<comment> \<open>\<^verbatim>\<open>unsigned long\<close>, \<^verbatim>\<open>size_t\<close>, \<^verbatim>\<open>uint64_t\<close>, addresses\<close>
type_synonym byte = "8 word"      \<comment> \<open>\<^verbatim>\<open>unsigned char\<close>\<close>

subsection \<open>Program state and the requests made to the operating system\<close>

datatype os_call =
    Usleep c_uint
  | Sysinfo
  | Sysconf_SC_CLK_TCK
  | Getrandom c_ulong c_ulong c_uint

text \<open>
  The state a function of the shim runs in. A caller can see the memory and the thread's
  \<^verbatim>\<open>errno\<close> (which \<^verbatim>\<open>swifthal_uptime_get\<close> reads). Beside them the model keeps a log of
  the requests that reached the operating system, oldest first: no C object holds it, it
  is how a sleep or a read of the random source shows in the model.
\<close>

record world =
  memory :: "c_ulong \<Rightarrow> byte"
  errno :: c_int
  os_calls :: "os_call list"

definition world0 :: world where
  "world0 = \<lparr>memory = (\<lambda>_. 0), errno = 0, os_calls = []\<rparr>"

subsection \<open>The C library calls\<close>

text \<open>
  The library functions are not part of the repository. Each one is modelled by what its
  manual page promises, with the answer of the operating system as an explicit argument:
  on failure the call returns \<open>-1\<close> and stores the error code in \<^verbatim>\<open>errno\<close>.
\<close>

datatype usleep_reply = Usleep_done | Usleep_failed c_int

text \<open>Modelled from the spec: the platform's microsecond-sleep primitive \<^verbatim>\<open>usleep\<close>.\<close>

definition usleep :: "usleep_reply \<Rightarrow> c_uint \<Rightarrow> world \<Rightarrow> c_int \<times> world" where
  "usleep r usec w =
     (let w' = w\<lparr>os_calls := os_calls w @ [Usleep usec]\<rparr>
      in case r of
           Usleep_done \<Rightarrow> (0, w')
         | Usleep_failed e \<Rightarrow> (- 1, w'\<lparr>errno := e\<rparr>))"

text \<open>
  Modelled from the spec: \<^verbatim>\<open>struct sysinfo\<close> of the system headers. The shim reads its
  field \<^verbatim>\<open>uptime\<close> (a \<^verbatim>\<open>long\<close>, the seconds since boot) only.
\<close>

record sysinfo_t =
  uptime :: c_long

datatype sysinfo_reply = Sysinfo_ok sysinfo_t | Sysinfo_failed c_int

text \<open>
  Modelled from the spec: the OS uptime query \<^verbatim>\<open>sysinfo\<close>. The structure the pointer
  argument refers to is passed in and returned; a failed call leaves it as it was.
\<close>

definition sysinfo :: "sysinfo_reply \<Rightarrow> sysinfo_t \<Rightarrow> world \<Rightarrow> (c_int \<times> sysinfo_t) \<times> world" where
  "sysinfo r info w =
     (let w' = w\<lparr>os_calls := os_calls w @ [Sysinfo]\<rparr>
      in case r of
           Sysinfo_ok info' \<Rightarrow> ((0, info'), w')
         | Sysinfo_failed e \<Rightarrow> ((- 1, info), w'\<lparr>errno := e\<rparr>))"

text \<open>
  Modelled from the spec: \<^verbatim>\<open>sysconf(_SC_CLK_TCK)\<close>, the clock ticks per second of the
  OS configuration, a \<^verbatim>\<open>long\<close>. The name is valid, so \<^verbatim>\<open>errno\<close> is not touched.
\<close>

definition sysconf_SC_CLK_TCK :: "c_long \<Rightarrow> world \<Rightarrow> c_long \<times> world" where
  "sysconf_SC_CLK_TCK clk_tck w = (clk_tck, w\<lparr>os_calls := os_calls w @ [Sysconf_SC_CLK_TCK]\<rparr>)"

text \<open>Writing a run of bytes into memory, lowest address first.\<close>

fun store_bytes :: "c_ulong \<Rightarrow> byte list \<Rightarrow> (c_ulong \<Rightarrow> byte) \<Rightarrow> (c_ulong \<Rightarrow> byte)" where
  "store_bytes a [] m = m"
| "store_bytes a (b # bs) m = store_bytes (a + 1) bs (m(a := b))"

datatype getrandom_reply = Getrandom_filled "byte list" | Getrandom_failed c_int

text \<open>
  Modelled from the spec: the OS random source \<^verbatim>\<open>getrandom\<close>. The reply carries the
  random bytes the OS has ready; the call writes at most \<open>buflen\<close> of them at \<open>buf\<close> and
  returns how many it wrote, which may be fewer than \<open>buflen\<close> (a short read).
\<close>

definition getrandom ::
    "getrandom_reply \<Rightarrow> c_ulong \<Rightarrow> c_ulong \<Rightarrow> c_uint \<Rightarrow> world \<Rightarrow> c_long \<times> world" where
  "getrandom r buf buflen flags w =
     (let w' = w\<lparr>os_calls := os_calls w @ [Getrandom buf buflen flags]\<rparr>
      in case r of
           Getrandom_filled bytes \<Rightarrow>
             (let bs = take (unat buflen) bytes
              in (word_of_nat (length bs), w'\<lparr>memory := store_bytes buf bs (memory w')\<rparr>))
         | Getrandom_failed e \<Rightarrow> (- 1, w'\<lparr>errno := e\<rparr>))"

subsection \<open>The cycle counter\<close>

text \<open>The target architecture is fixed when the file is compiled.\<close>

datatype arch = X86_64 | ARM_A64

text \<open>\<^verbatim>\<open>rdtsc\<close> delivers the 64-bit time stamp counter in two halves: EAX (low) and EDX (high).\<close>

definition rdtsc :: "64 word \<Rightarrow> c_uint \<times> c_uint" where
  "rdtsc counter = (ucast counter, ucast (drop_bit 32 counter))"

text \<open>\<^verbatim>\<open>mrs %0, cntvct_el0\<close> delivers the 64-bit virtual counter.\<close>

definition mrs_cntvct_el0 :: "64 word \<Rightarrow> 64 word" where
  "mrs_cntvct_el0 counter = counter"

subsection \<open>The functions of swift\_platform.c\<close>

text \<open>\<^verbatim>\<open>void swifthal_ms_sleep(int ms) { usleep(ms * 1000); }\<close>\<close>

definition swifthal_ms_sleep :: "usleep_reply \<Rightarrow> c_int \<Rightarrow> world \<Rightarrow> world" where
  "swifthal_ms_sleep r ms w = snd (usleep r (ms * 1000) w)"

text \<open>\<^verbatim>\<open>void swifthal_us_wait(unsigned int us) { usleep(us); }\<close>\<close>

definition swifthal_us_wait :: "usleep_reply \<Rightarrow> c_uint \<Rightarrow> world \<Rightarrow> world" where
  "swifthal_us_wait r us w = snd (usleep r us w)"

text \<open>
  \<^verbatim>\<open>long long swifthal_uptime_get(void)\<close>. The local \<^verbatim>\<open>struct sysinfo info\<close> starts with
  whatever the stack holds, \<open>info0\<close>. \<^verbatim>\<open>-errno\<close> is an \<^verbatim>\<open>int\<close>, sign-extended to the return
  type; \<^verbatim>\<open>info.uptime * 1000\<close> is a \<^verbatim>\<open>long\<close> product.
\<close>

definition swifthal_uptime_get :: "sysinfo_reply \<Rightarrow> sysinfo_t \<Rightarrow> world \<Rightarrow> c_long \<times> world" where
  "swifthal_uptime_get r info0 w =
     (case sysinfo r info0 w of
        ((ret, info), w') \<Rightarrow>
          if ret <s 0 then (scast (- errno w'), w')
          else (uptime info * 1000, w'))"

text \<open>
  \<^verbatim>\<open>unsigned int swifthal_hwcycle_get(void)\<close>: the 64-bit value each branch computes is
  converted to the return type \<^verbatim>\<open>unsigned int\<close>.
\<close>

definition swifthal_hwcycle_get :: "arch \<Rightarrow> 64 word \<Rightarrow> c_uint" where
  "swifthal_hwcycle_get target counter =
     (case target of
        X86_64 \<Rightarrow>
          (case rdtsc counter of
             (a, d) \<Rightarrow> ucast ((ucast a :: c_ulong) OR push_bit 32 (ucast d :: c_ulong)))
      | ARM_A64 \<Rightarrow> (let val = mrs_cntvct_el0 counter in ucast val))"

text \<open>
  \<^verbatim>\<open>unsigned int swifthal_hwcycle_to_ns(unsigned int cycles) { return sysconf(_SC_CLK_TCK); }\<close>:
  the \<^verbatim>\<open>long\<close> is converted to \<^verbatim>\<open>unsigned int\<close>.
\<close>

definition swifthal_hwcycle_to_ns :: "c_long \<Rightarrow> c_uint \<Rightarrow> world \<Rightarrow> c_uint \<times> world" where
  "swifthal_hwcycle_to_ns clk_tck cycles w =
     (case sysconf_SC_CLK_TCK clk_tck w of (v, w') \<Rightarrow> (ucast v, w'))"

text \<open>
  \<^verbatim>\<open>void swiftHal_randomGet(unsigned char *buf, int length) { getrandom(buf, length, 0); }\<close>:
  the \<^verbatim>\<open>int\<close> length is sign-extended to \<^verbatim>\<open>size_t\<close>, the result of the call is dropped.
\<close>

definition swiftHal_randomGet :: "getrandom_reply \<Rightarrow> c_ulong \<Rightarrow> c_int \<Rightarrow> world \<Rightarrow> world" where
  "swiftHal_randomGet r buf len w = snd (getrandom r buf (scast len) 0 w)"

section \<open>Facts about the C conversions\<close>

lemma uint_of_nonneg_sint:
  fixes x :: "'a::len word"
  assumes "0 \<le> sint x"
  shows "uint x = sint x"
proof -
  have "(2 :: int) ^ (LENGTH('a) - 1) \<le> 2 ^ LENGTH('a)"
    by (rule power_increasing) simp_all
  then have "sint x < 2 ^ LENGTH('a)"
    using sint_lt [of x] by linarith
  then have "take_bit LENGTH('a) (sint x) = sint x"
    using assms by (simp add: take_bit_int_eq_self)
  then show ?thesis by (simp add: uint_sint)
qed

text \<open>\<^verbatim>\<open>long\<close> to \<^verbatim>\<open>unsigned int\<close> keeps a value that fits.\<close>

lemma uint_ucast_small:
  fixes x :: c_long
  assumes "0 \<le> sint x" and "sint x < 2 ^ 32"
  shows "uint (ucast x :: c_uint) = sint x"
proof -
  have "uint (ucast x :: c_uint) = take_bit 32 (uint x)"
    by (simp add: unsigned_ucast_eq)
  also have "\<dots> = take_bit 32 (sint x)"
    using assms(1) by (simp add: uint_of_nonneg_sint)
  also have "\<dots> = sint x"
    using assms by (simp add: take_bit_int_eq_self)
  finally show ?thesis .
qed

text \<open>The \<^verbatim>\<open>long\<close> product with 1000 is exact up to \<open>LONG_MAX div 1000\<close>.\<close>

lemma sint_mult_1000:
  fixes x :: c_long
  assumes "- 9223372036854775 \<le> sint x" and "sint x \<le> 9223372036854775"
  shows "sint (x * 1000) = sint x * 1000"
proof -
  have "sint (x * 1000) = signed_take_bit 63 (sint x * 1000)"
    by (simp add: sint_word_mult)
  also have "\<dots> = sint x * 1000"
    using assms by (intro signed_take_bit_int_eq_self) simp_all
  finally show ?thesis .
qed

text \<open>Negating a positive \<^verbatim>\<open>int\<close> and widening it to \<^verbatim>\<open>long long\<close> is exact.\<close>

lemma sint_scast_neg:
  fixes e :: c_int
  assumes "0 < sint e"
  shows "sint (scast (- e) :: c_long) = - sint e"
proof -
  have b: "sint e < 2 ^ 31" using sint_lt [of e] by simp
  have "sint (- e) = signed_take_bit 31 (- sint e)"
    by (simp add: sint_word_minus)
  also have "\<dots> = - sint e"
    using assms b by (intro signed_take_bit_int_eq_self) simp_all
  finally have m: "sint (- e) = - sint e" .
  have "sint (scast (- e) :: c_long) = signed_take_bit 63 (sint (- e))"
    by (simp add: signed_scast_eq)
  also have "\<dots> = - sint e"
    unfolding m using assms b by (intro signed_take_bit_int_eq_self) simp_all
  finally show ?thesis .
qed

text \<open>A non-negative \<^verbatim>\<open>int\<close> keeps its value as a \<^verbatim>\<open>size_t\<close>.\<close>

lemma unat_scast_len:
  fixes len :: c_int
  assumes "0 \<le> sint len"
  shows "unat (scast len :: c_ulong) = nat (sint len)"
proof -
  have b: "sint len < 2 ^ 31" using sint_lt [of len] by simp
  have "sint (scast len :: c_ulong) = signed_take_bit 63 (sint len)"
    by (simp add: signed_scast_eq)
  also have "\<dots> = sint len"
    using assms b by (intro signed_take_bit_int_eq_self) simp_all
  finally have s: "sint (scast len :: c_ulong) = sint len" .
  then have "uint (scast len :: c_ulong) = sint len"
    using assms uint_of_nonneg_sint [of "scast len :: c_ulong"] by simp
  then show ?thesis by (metis unat_eq_nat_uint)
qed

text \<open>What \<^verbatim>\<open>usleep\<close> receives for \<^verbatim>\<open>ms * 1000\<close>, read as a \<^verbatim>\<open>useconds_t\<close>.\<close>

lemma uint_ms_times_1000:
  fixes ms :: c_int
  shows "uint (ms * 1000) = (sint ms * 1000) mod 2 ^ 32"
proof -
  have "uint (ms * 1000) = take_bit 32 (sint (ms * 1000))"
    by (simp add: uint_sint)
  also have "\<dots> = take_bit 32 (signed_take_bit 31 (sint ms * 1000))"
    by (simp add: sint_word_mult)
  also have "\<dots> = take_bit 32 (sint ms * 1000)"
    by (simp add: take_bit_signed_take_bit)
  finally show ?thesis by (simp add: take_bit_eq_mod)
qed

section \<open>Facts about the library calls\<close>

lemma store_bytes_frame:
  "(\<forall>i < length bs. a \<noteq> p + word_of_nat i) \<Longrightarrow> store_bytes p bs m a = m a"
proof (induction bs arbitrary: p m)
  case Nil
  then show ?case by simp
next
  case (Cons b bs)
  have ne: "a \<noteq> p" using Cons.prems by force
  have rest: "\<forall>i < length bs. a \<noteq> (p + 1) + word_of_nat i"
  proof (intro allI impI)
    fix i assume "i < length bs"
    then have "Suc i < length (b # bs)" by simp
    then have "a \<noteq> p + word_of_nat (Suc i)" using Cons.prems by blast
    then show "a \<noteq> (p + 1) + word_of_nat i" by (simp add: add.assoc)
  qed
  have "store_bytes (p + 1) bs (m(p := b)) a = (m(p := b)) a"
    using rest by (rule Cons.IH)
  also have "\<dots> = m a" using ne by simp
  finally show ?case by simp
qed

lemma usleep_calls: "os_calls (snd (usleep r usec w)) = os_calls w @ [Usleep usec]"
  by (cases r) (simp_all add: usleep_def)

lemma usleep_memory: "memory (snd (usleep r usec w)) = memory w"
  by (cases r) (simp_all add: usleep_def)

lemma usleep_errno: "errno (snd (usleep Usleep_done usec w)) = errno w"
  by (simp add: usleep_def)

section \<open>Facts about the functions\<close>

lemma swifthal_uptime_get_ok:
  "swifthal_uptime_get (Sysinfo_ok info) info0 w =
     (uptime info * 1000, w\<lparr>os_calls := os_calls w @ [Sysinfo]\<rparr>)"
  by (simp add: swifthal_uptime_get_def sysinfo_def word_sless_alt)

lemma swifthal_uptime_get_failed:
  "swifthal_uptime_get (Sysinfo_failed e) info0 w =
     (scast (- e), w\<lparr>os_calls := os_calls w @ [Sysinfo], errno := e\<rparr>)"
  by (simp add: swifthal_uptime_get_def sysinfo_def word_sless_alt)

lemma swifthal_uptime_get_memory: "memory (snd (swifthal_uptime_get r info0 w)) = memory w"
  by (cases r) (simp_all add: swifthal_uptime_get_ok swifthal_uptime_get_failed)

lemma swifthal_uptime_get_errno:
  "errno (snd (swifthal_uptime_get (Sysinfo_ok info) info0 w)) = errno w"
  by (simp add: swifthal_uptime_get_ok)

lemma swifthal_hwcycle_to_ns_state:
  "memory (snd (swifthal_hwcycle_to_ns clk_tck cycles w)) = memory w
   \<and> errno (snd (swifthal_hwcycle_to_ns clk_tck cycles w)) = errno w"
  by (simp add: swifthal_hwcycle_to_ns_def sysconf_SC_CLK_TCK_def)

lemma swifthal_hwcycle_get_ucast: "swifthal_hwcycle_get target counter = ucast counter"
proof -
  have halves:
    "ucast ((ucast (ucast counter :: c_uint) :: c_ulong)
        OR push_bit 32 (ucast (ucast (drop_bit 32 counter) :: c_uint) :: c_ulong))
     = (ucast counter :: c_uint)"
    by (rule bit_word_eqI) (auto simp: bit_simps)
  show ?thesis
    by (cases target) (simp_all add: swifthal_hwcycle_get_def rdtsc_def mrs_cntvct_el0_def halves)
qed

lemma swiftHal_randomGet_memory:
  assumes "0 \<le> sint len" and "\<forall>i < nat (sint len). a \<noteq> buf + word_of_nat i"
  shows "memory (swiftHal_randomGet r buf len w) a = memory w a"
proof (cases r)
  case (Getrandom_filled bytes)
  have le: "length (take (unat (scast len :: c_ulong)) bytes) \<le> nat (sint len)"
    using assms(1) by (simp add: unat_scast_len)
  have "\<forall>i < length (take (unat (scast len :: c_ulong)) bytes). a \<noteq> buf + word_of_nat i"
  proof (intro allI impI)
    fix i assume "i < length (take (unat (scast len :: c_ulong)) bytes)"
    with le have "i < nat (sint len)" by linarith
    with assms(2) show "a \<noteq> buf + word_of_nat i" by blast
  qed
  then show ?thesis
    using Getrandom_filled
    by (simp add: swiftHal_randomGet_def getrandom_def Let_def store_bytes_frame)
next
  case (Getrandom_failed e)
  then show ?thesis by (simp add: swiftHal_randomGet_def getrandom_def)
qed

lemma swiftHal_randomGet_errno:
  "errno (swiftHal_randomGet (Getrandom_filled bytes) buf len w) = errno w"
  by (simp add: swiftHal_randomGet_def getrandom_def Let_def)

section \<open>The claims\<close>

subsection \<open>Cycle-to-nanosecond conversion\<close>

text \<open>
  Claim C1. For every input \<open>cycles\<close>, \<^verbatim>\<open>swifthal_hwcycle_to_ns\<close> ignores \<open>cycles\<close>: two
  calls in the same state that differ in \<open>cycles\<close> only give the same result and the same
  state, and the result is the clock-ticks-per-second value of \<^verbatim>\<open>sysconf(_SC_CLK_TCK)\<close>,
  converted to the return type \<^verbatim>\<open>unsigned int\<close> (the same number whenever it fits).
\<close>

theorem hwcycle_to_ns_ignores_cycles:
  "swifthal_hwcycle_to_ns clk_tck cycles w = swifthal_hwcycle_to_ns clk_tck cycles' w
   \<and> fst (swifthal_hwcycle_to_ns clk_tck cycles w) = ucast clk_tck
   \<and> (0 \<le> sint clk_tck \<and> sint clk_tck < 2 ^ 32 \<longrightarrow>
        uint (fst (swifthal_hwcycle_to_ns clk_tck cycles w)) = sint clk_tck)"
  by (simp add: swifthal_hwcycle_to_ns_def sysconf_SC_CLK_TCK_def uint_ucast_small)

text \<open>With 100 ticks per second, 7 cycles and 123456 cycles both convert to 100.\<close>

theorem hwcycle_to_ns_ignores_cycles_witness:
  "swifthal_hwcycle_to_ns 100 7 world0 = swifthal_hwcycle_to_ns 100 123456 world0
   \<and> uint (fst (swifthal_hwcycle_to_ns 100 7 world0)) = 100"
proof -
  have "0 \<le> sint (100 :: c_long) \<and> sint (100 :: c_long) < 2 ^ 32" by simp
  with hwcycle_to_ns_ignores_cycles [of 100 7 world0 123456] show ?thesis by auto
qed

subsection \<open>The two sleeps\<close>

text \<open>
  Claim C3. For every non-negative \<open>ms\<close>, \<^verbatim>\<open>swifthal_ms_sleep\<close> converts \<open>ms\<close> to
  microseconds and asks \<^verbatim>\<open>usleep\<close> for \<open>ms * 1000\<close> of them. The code computes the product
  in 32 bits without a guard and does not keep this promise: at \<open>ms = 4294968\<close> (about
  71.6 minutes), a non-negative \<^verbatim>\<open>int\<close>, its one request is for 704 microseconds, not
  for 4294968000.
\<close>

theorem ms_sleep_request_wraps:
  "0 \<le> sint (4294968 :: c_int)
   \<and> os_calls (swifthal_ms_sleep Usleep_done 4294968 world0) = [Usleep 704]
   \<and> uint (704 :: c_uint) \<noteq> sint (4294968 :: c_int) * 1000"
  by (simp add: swifthal_ms_sleep_def usleep_def world0_def)

text \<open>
  Claim C6. \<^verbatim>\<open>swifthal_ms_sleep(ms)\<close> has the effect of \<^verbatim>\<open>swifthal_us_wait(ms * 1000)\<close>:
  the same request to \<^verbatim>\<open>usleep\<close> with the same argument and the same resulting state,
  whether the product is taken in C arithmetic or as a number passed through the
  \<^verbatim>\<open>unsigned int\<close> parameter. It holds for every \<open>ms\<close>, non-negative or not.
\<close>

theorem ms_sleep_eq_us_wait:
  "swifthal_ms_sleep r ms w = swifthal_us_wait r (ms * 1000) w
   \<and> swifthal_ms_sleep r ms w = swifthal_us_wait r (word_of_int (sint ms * 1000)) w"
  by (simp add: swifthal_ms_sleep_def swifthal_us_wait_def)

text \<open>
  Claim C10, as stated: for every \<open>ms\<close> above \<open>INT_MAX div 1000 = 2147483\<close> the wrapped
  request differs from \<open>1000 * ms\<close>. It fails at \<open>ms = 2147484\<close>: the \<^verbatim>\<open>int\<close> product
  overflows, yet read as a \<^verbatim>\<open>useconds_t\<close> the request is 2147484000, which is \<open>1000 * ms\<close>.
\<close>

theorem ms_sleep_overflow_still_exact:
  "2147483 < sint (2147484 :: c_int)
   \<and> os_calls (swifthal_ms_sleep Usleep_done 2147484 world0) = [Usleep 2147484000]
   \<and> uint (2147484000 :: c_uint) = 1000 * sint (2147484 :: c_int)"
  by (simp add: swifthal_ms_sleep_def usleep_def world0_def)

text \<open>
  Claim C10, amended. For every \<open>ms\<close> above 2147483 the product \<open>ms * 1000\<close> exceeds
  \<open>INT_MAX\<close>; under wrap-around the duration requested is \<open>(ms * 1000) mod 2\<^sup>3\<^sup>2\<close>, and it
  differs from \<open>1000 * ms\<close> exactly when \<open>ms\<close> is above \<open>UINT_MAX div 1000 = 4294967\<close>.
\<close>

theorem ms_sleep_overflow_request:
  assumes "2147483 < sint ms"
  shows "2147483647 < sint ms * 1000
       \<and> os_calls (swifthal_ms_sleep r ms w) = os_calls w @ [Usleep (ms * 1000)]
       \<and> uint (ms * 1000) = (sint ms * 1000) mod 2 ^ 32
       \<and> (uint (ms * 1000) \<noteq> sint ms * 1000 \<longleftrightarrow> 4294967 < sint ms)"
proof -
  have ov: "2147483647 < sint ms * 1000" using assms by simp
  have "(sint ms * 1000) mod 2 ^ 32 = sint ms * 1000" if "sint ms \<le> 4294967"
    using that assms by (intro mod_pos_pos_trivial) simp_all
  moreover have "(sint ms * 1000) mod 2 ^ 32 \<noteq> sint ms * 1000" if "4294967 < sint ms"
  proof -
    have "(sint ms * 1000) mod 2 ^ 32 < 2 ^ 32" by simp
    moreover have "(2 ^ 32 :: int) \<le> sint ms * 1000" using that by simp
    ultimately show ?thesis by linarith
  qed
  ultimately have "(sint ms * 1000) mod 2 ^ 32 \<noteq> sint ms * 1000 \<longleftrightarrow> 4294967 < sint ms"
    by (cases "4294967 < sint ms") simp_all
  then show ?thesis
    using ov by (simp add: swifthal_ms_sleep_def usleep_calls uint_ms_times_1000)
qed

text \<open>At 4294968 milliseconds the request is for 704 microseconds.\<close>

theorem ms_sleep_overflow_request_witness:
  "os_calls (swifthal_ms_sleep Usleep_done 4294968 world0) = [Usleep 704]
   \<and> uint (704 :: c_uint) \<noteq> 4294968000"
  using ms_sleep_overflow_request [of 4294968 Usleep_done world0] by (simp add: world0_def)

subsection \<open>Uptime query\<close>

text \<open>
  Claim C2, as stated: a successful \<^verbatim>\<open>sysinfo\<close> makes the function return the uptime in
  seconds times 1000, and a negative result means that the call failed. It fails for an
  uptime reading of 9223372036854776 seconds, the first whose product with 1000 passes
  \<open>LLONG_MAX\<close>: the call succeeds, and the result is negative and is not the product.
\<close>

theorem uptime_get_product_overflows:
  "sint (fst (swifthal_uptime_get (Sysinfo_ok \<lparr>uptime = 9223372036854776\<rparr>)
             \<lparr>uptime = 0\<rparr> world0)) < 0
   \<and> sint (fst (swifthal_uptime_get (Sysinfo_ok \<lparr>uptime = 9223372036854776\<rparr>)
               \<lparr>uptime = 0\<rparr> world0))
       \<noteq> sint (9223372036854776 :: c_long) * 1000"
  by (simp add: swifthal_uptime_get_ok)

text \<open>
  Claim C2, amended. For an uptime reading from 0 to 9223372036854775 seconds, a
  successful \<^verbatim>\<open>sysinfo\<close> makes \<^verbatim>\<open>swifthal_uptime_get\<close> return the uptime times 1000, a
  non-negative value; a failed \<^verbatim>\<open>sysinfo\<close> that sets \<^verbatim>\<open>errno\<close> to a positive code \<open>e\<close> makes
  it return \<open>- e\<close>, a negative value. So the result is negative if and only if the call
  failed. The function is total: it returns in either case and raises nothing.
\<close>

theorem uptime_get_sign_convention:
  assumes "0 \<le> sint (uptime info)" and "sint (uptime info) \<le> 9223372036854775"
    and "0 < sint e"
  shows "sint (fst (swifthal_uptime_get (Sysinfo_ok info) info0 w)) = sint (uptime info) * 1000
       \<and> 0 \<le> sint (fst (swifthal_uptime_get (Sysinfo_ok info) info0 w))
       \<and> errno (snd (swifthal_uptime_get (Sysinfo_failed e) info0 w)) = e
       \<and> sint (fst (swifthal_uptime_get (Sysinfo_failed e) info0 w)) = - sint e
       \<and> sint (fst (swifthal_uptime_get (Sysinfo_failed e) info0 w)) < 0"
  using assms
  by (simp add: swifthal_uptime_get_ok swifthal_uptime_get_failed sint_mult_1000 sint_scast_neg)

text \<open>Five seconds after boot the result is 5000; a failure with \<^verbatim>\<open>EFAULT\<close> (14) gives -14.\<close>

theorem uptime_get_sign_convention_witness:
  "sint (fst (swifthal_uptime_get (Sysinfo_ok \<lparr>uptime = 5\<rparr>) \<lparr>uptime = 0\<rparr> world0)) = 5000
   \<and> sint (fst (swifthal_uptime_get (Sysinfo_failed 14) \<lparr>uptime = 0\<rparr> world0)) = - 14"
  using uptime_get_sign_convention [of "\<lparr>uptime = 5\<rparr>" 14 "\<lparr>uptime = 0\<rparr>" world0] by simp

text \<open>
  Claim C7, as stated: when \<^verbatim>\<open>sysinfo\<close> succeeds and the uptime readings are non-negative
  and non-decreasing, the results are non-negative and non-decreasing. It fails for the
  readings 9223372036854775 and then 9223372036854776 seconds: the second result is
  negative and below the first.
\<close>

theorem uptime_get_not_monotone_at_overflow:
  "0 \<le> sint (9223372036854775 :: c_long)
   \<and> sint (9223372036854775 :: c_long) \<le> sint (9223372036854776 :: c_long)
   \<and> sint (fst (swifthal_uptime_get (Sysinfo_ok \<lparr>uptime = 9223372036854776\<rparr>) \<lparr>uptime = 0\<rparr>
        (snd (swifthal_uptime_get (Sysinfo_ok \<lparr>uptime = 9223372036854775\<rparr>)
               \<lparr>uptime = 0\<rparr> world0)))) < 0
   \<and> sint (fst (swifthal_uptime_get (Sysinfo_ok \<lparr>uptime = 9223372036854776\<rparr>) \<lparr>uptime = 0\<rparr>
        (snd (swifthal_uptime_get (Sysinfo_ok \<lparr>uptime = 9223372036854775\<rparr>)
               \<lparr>uptime = 0\<rparr> world0))))
     < sint (fst (swifthal_uptime_get (Sysinfo_ok \<lparr>uptime = 9223372036854775\<rparr>)
                  \<lparr>uptime = 0\<rparr> world0))"
  by (simp add: swifthal_uptime_get_ok)

text \<open>
  Claim C7, amended. When \<^verbatim>\<open>sysinfo\<close> succeeds and the uptime readings are non-negative,
  non-decreasing and at most 9223372036854775 seconds, \<^verbatim>\<open>swifthal_uptime_get\<close> returns a
  non-negative value, and of two successive calls (the second runs in the state the first
  left) the second returns at least what the first did.
\<close>

theorem uptime_get_monotone:
  assumes "0 \<le> sint (uptime i1)" and "sint (uptime i1) \<le> sint (uptime i2)"
    and "sint (uptime i2) \<le> 9223372036854775"
  shows "0 \<le> sint (fst (swifthal_uptime_get (Sysinfo_ok i1) s1 w))
       \<and> sint (fst (swifthal_uptime_get (Sysinfo_ok i1) s1 w))
         \<le> sint (fst (swifthal_uptime_get (Sysinfo_ok i2) s2
                    (snd (swifthal_uptime_get (Sysinfo_ok i1) s1 w))))"
  using assms by (simp add: swifthal_uptime_get_ok sint_mult_1000)

text \<open>Readings of 5 and then 6 seconds.\<close>

theorem uptime_get_monotone_witness:
  "0 \<le> sint (fst (swifthal_uptime_get (Sysinfo_ok \<lparr>uptime = 5\<rparr>) \<lparr>uptime = 0\<rparr> world0))
   \<and> sint (fst (swifthal_uptime_get (Sysinfo_ok \<lparr>uptime = 5\<rparr>) \<lparr>uptime = 0\<rparr> world0))
     \<le> sint (fst (swifthal_uptime_get (Sysinfo_ok \<lparr>uptime = 6\<rparr>) \<lparr>uptime = 5\<rparr>
                (snd (swifthal_uptime_get (Sysinfo_ok \<lparr>uptime = 5\<rparr>) \<lparr>uptime = 0\<rparr> world0))))"
  using uptime_get_monotone
    [of "\<lparr>uptime = 5\<rparr>" "\<lparr>uptime = 6\<rparr>" "\<lparr>uptime = 0\<rparr>" world0 "\<lparr>uptime = 5\<rparr>"]
  by simp

text \<open>
  Claim C9, as stated: whenever the call succeeds and the result is non-negative, the
  result is a multiple of 1000. It fails for an uptime reading of 18446744073709552
  seconds: the product wraps around to 384.
\<close>

theorem uptime_get_not_whole_seconds_at_overflow:
  "0 \<le> sint (fst (swifthal_uptime_get (Sysinfo_ok \<lparr>uptime = 18446744073709552\<rparr>)
                  \<lparr>uptime = 0\<rparr> world0))
   \<and> \<not> 1000 dvd sint (fst (swifthal_uptime_get (Sysinfo_ok \<lparr>uptime = 18446744073709552\<rparr>)
                            \<lparr>uptime = 0\<rparr> world0))"
  by (simp add: swifthal_uptime_get_ok)

text \<open>
  Claim C9, amended. Whenever \<^verbatim>\<open>sysinfo\<close> succeeds with an uptime reading from 0 to
  9223372036854775 seconds, the value returned is non-negative and an exact multiple of
  1000: divided by 1000 it is the reading, so it carries whole seconds only.
\<close>

theorem uptime_get_whole_seconds:
  assumes "0 \<le> sint (uptime info)" and "sint (uptime info) \<le> 9223372036854775"
  shows "0 \<le> sint (fst (swifthal_uptime_get (Sysinfo_ok info) info0 w))
       \<and> 1000 dvd sint (fst (swifthal_uptime_get (Sysinfo_ok info) info0 w))
       \<and> sint (fst (swifthal_uptime_get (Sysinfo_ok info) info0 w)) div 1000
           = sint (uptime info)"
  using assms by (simp add: swifthal_uptime_get_ok sint_mult_1000)

text \<open>A reading of 5 seconds gives 5000, a multiple of 1000.\<close>

theorem uptime_get_whole_seconds_witness:
  "1000 dvd sint (fst (swifthal_uptime_get (Sysinfo_ok \<lparr>uptime = 5\<rparr>) \<lparr>uptime = 0\<rparr> world0))
   \<and> sint (fst (swifthal_uptime_get (Sysinfo_ok \<lparr>uptime = 5\<rparr>) \<lparr>uptime = 0\<rparr> world0)) = 5000"
proof -
  have "sint (fst (swifthal_uptime_get (Sysinfo_ok \<lparr>uptime = 5\<rparr>) \<lparr>uptime = 0\<rparr> world0)) = 5000"
    by (simp add: swifthal_uptime_get_ok)
  with uptime_get_whole_seconds [of "\<lparr>uptime = 5\<rparr>" "\<lparr>uptime = 0\<rparr>" world0]
  show ?thesis by simp
qed

subsection \<open>Hardware cycle counter\<close>

text \<open>
  Claim C4, as stated: on a 64-bit target the value returned is the hardware counter
  modulo \<open>2\<^sup>6\<^sup>4\<close>, with no narrower truncation. It fails on both targets once the counter
  has reached \<open>2\<^sup>3\<^sup>2 = 4294967296\<close>: the value returned is 0.
\<close>

theorem hwcycle_get_drops_high_half:
  "uint (swifthal_hwcycle_get X86_64 4294967296) \<noteq> uint (4294967296 :: 64 word) mod 2 ^ 64
   \<and> uint (swifthal_hwcycle_get ARM_A64 4294967296) \<noteq> uint (4294967296 :: 64 word) mod 2 ^ 64"
  by (simp add: swifthal_hwcycle_get_def rdtsc_def mrs_cntvct_el0_def)

text \<open>
  Claim C4, amended. The value returned by \<^verbatim>\<open>swifthal_hwcycle_get\<close> wraps at the width of
  its return type \<^verbatim>\<open>unsigned int\<close>: on both targets it is the hardware counter modulo
  \<open>2\<^sup>3\<^sup>2\<close>, the low 32 bits of the 64-bit counter.
\<close>

theorem hwcycle_get_low_32_bits:
  "swifthal_hwcycle_get target counter = ucast counter
   \<and> uint (swifthal_hwcycle_get target counter) = uint counter mod 2 ^ 32"
  by (simp add: swifthal_hwcycle_get_ucast unsigned_ucast_eq take_bit_eq_mod)

subsection \<open>Random byte fill\<close>

text \<open>
  Claim C5. For every buffer and length, and whatever the OS answers (a failure, fewer
  bytes than asked for, or all of them), \<^verbatim>\<open>swiftHal_randomGet\<close> adds exactly one request
  to the log of OS calls: \<^verbatim>\<open>getrandom\<close> for the buffer, the length converted to
  \<^verbatim>\<open>size_t\<close> and flags 0. There is no second request after a short read or a failure. The
  function is \<^verbatim>\<open>void\<close>: its model yields the state alone, so no value and no error
  indication reaches the caller, the count that \<^verbatim>\<open>getrandom\<close> returned being dropped.
\<close>

theorem randomGet_single_request:
  "os_calls (swiftHal_randomGet r buf len w) = os_calls w @ [Getrandom buf (scast len) 0]"
  by (cases r) (simp_all add: swiftHal_randomGet_def getrandom_def Let_def)

subsection \<open>What the functions change\<close>

text \<open>
  Claim C8, as stated: \<^verbatim>\<open>swiftHal_randomGet\<close> changes the bytes of the buffer and no other
  program-visible state, and the other operations change no caller-visible state. It
  fails when the OS call fails: a \<^verbatim>\<open>getrandom\<close> interrupted by a signal leaves \<^verbatim>\<open>EINTR\<close>
  (4) in \<^verbatim>\<open>errno\<close>, and a failed \<^verbatim>\<open>sysinfo\<close> leaves its code there, which is the value
  \<^verbatim>\<open>swifthal_uptime_get\<close> then reads.
\<close>

theorem failed_call_changes_errno:
  "errno (swiftHal_randomGet (Getrandom_failed 4) 4096 16 world0) \<noteq> errno world0
   \<and> errno (snd (swifthal_uptime_get (Sysinfo_failed 14) \<lparr>uptime = 0\<rparr> world0)) \<noteq> errno world0"
  by (simp add: swiftHal_randomGet_def getrandom_def swifthal_uptime_get_failed world0_def)

text \<open>
  Claim C8, amended. For every buffer \<open>buf\<close> and non-negative length,
  \<^verbatim>\<open>swiftHal_randomGet\<close> leaves every byte of memory outside \<open>buf[0]\<close> to
  \<open>buf[length - 1]\<close> as it was, and leaves \<^verbatim>\<open>errno\<close> as it was unless the OS call fails. The
  two sleeps, the uptime query and the conversion never change memory; the conversion
  never changes \<^verbatim>\<open>errno\<close>, and the other three leave it as it was unless their OS call
  fails. (\<^verbatim>\<open>swifthal_hwcycle_get\<close> is a function of the counter alone.)
\<close>

theorem shim_frame:
  assumes "0 \<le> sint len"
  shows "(\<forall>a. (\<forall>i < nat (sint len). a \<noteq> buf + word_of_nat i) \<longrightarrow>
            memory (swiftHal_randomGet gr buf len w) a = memory w a)
       \<and> errno (swiftHal_randomGet (Getrandom_filled bytes) buf len w) = errno w
       \<and> memory (swifthal_ms_sleep ur ms w) = memory w
       \<and> errno (swifthal_ms_sleep Usleep_done ms w) = errno w
       \<and> memory (swifthal_us_wait ur us w) = memory w
       \<and> errno (swifthal_us_wait Usleep_done us w) = errno w
       \<and> memory (snd (swifthal_uptime_get sr info0 w)) = memory w
       \<and> errno (snd (swifthal_uptime_get (Sysinfo_ok info) info0 w)) = errno w
       \<and> memory (snd (swifthal_hwcycle_to_ns clk_tck cycles w)) = memory w
       \<and> errno (snd (swifthal_hwcycle_to_ns clk_tck cycles w)) = errno w"
proof -
  have "\<forall>a. (\<forall>i < nat (sint len). a \<noteq> buf + word_of_nat i) \<longrightarrow>
            memory (swiftHal_randomGet gr buf len w) a = memory w a"
    using assms by (blast intro: swiftHal_randomGet_memory)
  then show ?thesis
    by (simp only: swiftHal_randomGet_errno swifthal_ms_sleep_def swifthal_us_wait_def
          usleep_memory usleep_errno swifthal_uptime_get_memory swifthal_uptime_get_errno
          swifthal_hwcycle_to_ns_state simp_thms)
qed

text \<open>
  Four bytes asked for at address 4096 while the OS has six ready: the bytes at 4096 to
  4099 are filled, the bytes at 4095 and at 4100 keep their value.
\<close>

theorem shim_frame_witness:
  "map (memory (swiftHal_randomGet (Getrandom_filled [1, 2, 3, 4, 5, 6]) 4096 4 world0))
       [4095, 4096, 4099, 4100] = [0, 1, 4, 0]"
proof -
  have len: "0 \<le> sint (4 :: c_int)" by simp
  have out: "\<forall>i < nat (sint (4 :: c_int)). a \<noteq> (4096 :: c_ulong) + word_of_nat i"
    if "a = 4095 \<or> a = 4100" for a
  proof (intro allI impI)
    fix i :: nat assume "i < nat (sint (4 :: c_int))"
    then have "i = 0 \<or> i = 1 \<or> i = 2 \<or> i = 3" by auto
    with that show "a \<noteq> 4096 + word_of_nat i" by auto
  qed
  note fr = shim_frame [OF len, of 4096 "Getrandom_filled [1, 2, 3, 4, 5, 6]" world0,
      THEN conjunct1, rule_format]
  have "memory (swiftHal_randomGet (Getrandom_filled [1, 2, 3, 4, 5, 6]) 4096 4 world0) 4095 = 0"
    using fr [of 4095] out [of 4095] by (simp add: world0_def)
  moreover
  have "memory (swiftHal_randomGet (Getrandom_filled [1, 2, 3, 4, 5, 6]) 4096 4 world0) 4100 = 0"
    using fr [of 4100] out [of 4100] by (simp add: world0_def)
  moreover
  have "memory (swiftHal_randomGet (Getrandom_filled [1, 2, 3, 4, 5, 6]) 4096 4 world0) 4096 = 1"
    by (simp add: swiftHal_randomGet_def getrandom_def world0_def)
  moreover
  have "memory (swiftHal_randomGet (Getrandom_filled [1, 2, 3, 4, 5, 6]) 4096 4 world0) 4099 = 4"
    by (simp add: swiftHal_randomGet_def getrandom_def world0_def)
  ultimately show ?thesis by simp
qed

end
